theory Spec2Isabelle
  imports Main
begin

section \<open>JavaScript values shared by the two route handlers\<close>

text \<open>
  The repository has two request handlers: \<^verbatim>\<open>POST\<close> (lead submission, appends a row to a
  spreadsheet) and \<^verbatim>\<open>GET\<close> (email verification, provisions a tenant user and issues a
  session cookie). Both are straight-line code around awaited calls to collaborators
  (spreadsheet client, token library, document store, cookie store). The collaborators
  are modelled as a \<open>world\<close> record that fixes what each call answers; every call a
  handler makes is appended to a trace, in program order, so that "before any external
  call" and "only after" are statements about the trace.
\<close>

text \<open>A thrown JavaScript error: its \<^verbatim>\<open>name\<close> and its \<^verbatim>\<open>message\<close>.\<close>

datatype js_error = JsError (err_name: string) (err_message: string)

text \<open>
  What \<^verbatim>\<open>JSON.parse\<close> can produce. Numbers are opaque to both handlers, which never
  compute with a field, so an integer stands for them.
\<close>

datatype json =
    JNull
  | JBool bool
  | JNum int
  | JStr string
  | JArr "json list"
  | JObj "(string \<times> json) list"

text \<open>A JavaScript value read from a parsed body: \<^verbatim>\<open>undefined\<close> or a JSON value.\<close>

datatype jsval = Undefined | Val json

text \<open>
  \<^verbatim>\<open>process.env\<close>: every variable is a string or is unset. Only the variables the two
  handlers read are listed.
\<close>

record env =
  GOOGLE_SHEETS_ID :: "string option"
  GOOGLE_SHEETS_CLIENT_EMAIL :: "string option"
  GOOGLE_SHEETS_PRIVATE_KEY :: "string option"
  EMAIL_SECRET_var :: "string option"
  JWT_SECRET_var :: "string option"
  NEXT_PUBLIC_APP_URL :: "string option"

text \<open>
  \<^verbatim>\<open>!x\<close> for a value that is a string, \<^verbatim>\<open>null\<close> or \<^verbatim>\<open>undefined\<close>: true when it is
  absent or the empty string.
\<close>

definition falsy :: "string option \<Rightarrow> bool" where
  "falsy x = (case x of None \<Rightarrow> True | Some s \<Rightarrow> s = [])"

text \<open>A value interpolated into a template literal; an absent one prints as \<^verbatim>\<open>undefined\<close>.\<close>

definition interp :: "string option \<Rightarrow> string" where
  "interp x = (case x of None \<Rightarrow> ''undefined'' | Some s \<Rightarrow> s)"

text \<open>A response of a handler: \<^verbatim>\<open>NextResponse.json(body, {status})\<close> or a redirect.\<close>

datatype response =
    Json nat "(string \<times> string) list"
  | Redirect string

text \<open>The decimal digit of a number below ten.\<close>

definition digit :: "nat \<Rightarrow> char" where
  "digit k = ''0123456789'' ! k"

text \<open>\<^verbatim>\<open>String(n)\<close> for a non-negative integer, and for any integer.\<close>

fun String_nat :: "nat \<Rightarrow> string" where
  "String_nat n =
     (if n < 10 then [digit n]
      else String_nat (n div 10) @ [digit (n mod 10)])"

declare String_nat.simps [simp del]

definition String_int :: "int \<Rightarrow> string" where
  "String_int i = (if i < 0 then CHR ''-'' # String_nat (nat (- i)) else String_nat (nat i))"

text \<open>\<^verbatim>\<open>s.padStart(n, c)\<close> with a one-character filler.\<close>

definition padStart :: "nat \<Rightarrow> char \<Rightarrow> string \<Rightarrow> string" where
  "padStart n c s = replicate (n - length s) c @ s"

section \<open>The lead submission handler (POST)\<close>

text \<open>The three getters of \<^verbatim>\<open>Date\<close> that the handler reads (\<^verbatim>\<open>getMonth\<close> counts from 0).\<close>

record js_date =
  getDate :: nat
  getMonth :: nat
  getFullYear :: int

record credentials =
  cred_type :: string
  private_key :: string
  client_email :: string
  project_id :: string

record append_params =
  spreadsheetId :: string
  range_a1 :: string
  valueInputOption :: string
  values_rows :: "jsval list list"

datatype sheets_event =
    GoogleAuthNew credentials
  | GoogleSheets string
  | SpreadsheetsGet string
  | ValuesAppend append_params
  | SheetsConsoleError string
  | SheetsConsoleLog string

text \<open>
  The request: what \<^verbatim>\<open>await request.json()\<close> gives, a thrown error for a body that does
  not parse.
\<close>

record lead_request =
  json_body :: "js_error + json"

text \<open>
  The collaborators of the handler: each field is the answer of one call
  (\<open>Some e\<close> or \<open>Inl e\<close>: the call throws \<open>e\<close>), and \<open>current_date\<close> is
  what \<^verbatim>\<open>new Date()\<close> reads.
\<close>

record sheets_world =
  googleAuth_new :: "credentials \<Rightarrow> js_error option"
  google_sheets :: "js_error option"
  spreadsheets_get :: "string \<Rightarrow> js_error option"
  values_append :: "append_params \<Rightarrow> js_error + nat"
  current_date :: js_date

text \<open>
  A property read \<^verbatim>\<open>body.k\<close> on a parsed body. An object made by \<^verbatim>\<open>JSON.parse\<close> keeps
  the last of repeated keys; none of the four names read is a property of a string,
  number, boolean or array.
\<close>

definition get_prop :: "json \<Rightarrow> string \<Rightarrow> jsval" where
  "get_prop body k =
     (case body of
        JObj kvs \<Rightarrow> (case map_of (rev kvs) k of None \<Rightarrow> Undefined | Some v \<Rightarrow> Val v)
      | _ \<Rightarrow> Undefined)"

text \<open>
  \<^verbatim>\<open>const { name, email, phone, plan } = body\<close>: destructuring \<^verbatim>\<open>null\<close> throws a
  TypeError (the message is the engine's), anything else reads the four properties.
\<close>

definition destructure :: "json \<Rightarrow> js_error + (jsval \<times> jsval \<times> jsval \<times> jsval)" where
  "destructure body =
     (case body of
        JNull \<Rightarrow> Inl (JsError ''TypeError'' ''Cannot destructure property of null'')
      | _ \<Rightarrow> Inr (get_prop body ''name'', get_prop body ''email'', get_prop body ''phone'', get_prop body ''plan''))"

text \<open>\<^verbatim>\<open>key.replace(/\\n/g, '\n')\<close>: every backslash followed by \<open>n\<close> becomes a line feed.\<close>

fun replace_escaped_newlines :: "string \<Rightarrow> string" where
  "replace_escaped_newlines (a # b # cs) =
     (if a = CHR 0x5C \<and> b = CHR ''n'' then CHR 0x0A # replace_escaped_newlines cs
      else a # replace_escaped_newlines (b # cs))"
| "replace_escaped_newlines cs = cs"

text \<open>Line 41: day and month padded to two characters, the year as it prints.\<close>

definition formattedDate :: "js_date \<Rightarrow> string" where
  "formattedDate currentDate =
     padStart 2 CHR ''0'' (String_nat (getDate currentDate)) @ ''/'' @
     padStart 2 CHR ''0'' (String_nat (getMonth currentDate + 1)) @ ''/'' @
     String_int (getFullYear currentDate)"

text \<open>Lines 16 to 21: the credentials given to \<^verbatim>\<open>GoogleAuth\<close>.\<close>

definition service_account :: "env \<Rightarrow> credentials" where
  "service_account e =
     \<lparr>cred_type = ''service_account'',
      private_key = replace_escaped_newlines (interp (GOOGLE_SHEETS_PRIVATE_KEY e)),
      client_email = interp (GOOGLE_SHEETS_CLIENT_EMAIL e),
      project_id = ''flowing-indexer-441615-m0''\<rparr>"

text \<open>
  Lines 7 to 54, the body of the outer \<^verbatim>\<open>try\<close>: \<open>Inl e\<close> is an exception that reaches
  the outer \<^verbatim>\<open>catch\<close>, \<open>Inr r\<close> a response returned from inside. The second component
  is the trace of calls made.
\<close>

definition POST_try ::
  "env \<Rightarrow> sheets_world \<Rightarrow> lead_request \<Rightarrow> (js_error + response) \<times> sheets_event list" where
  "POST_try e w request =
     (case json_body request of
        Inl err \<Rightarrow> (Inl err, [])
      | Inr body \<Rightarrow>
     (case destructure body of
        Inl err \<Rightarrow> (Inl err, [])
      | Inr (name, email, phone, plan) \<Rightarrow>
     if falsy (GOOGLE_SHEETS_ID e) \<or> falsy (GOOGLE_SHEETS_CLIENT_EMAIL e)
          \<or> falsy (GOOGLE_SHEETS_PRIVATE_KEY e)
     then (Inl (JsError ''Error'' ''Missing required environment variables''), [])
     else
       let t1 = [GoogleAuthNew (service_account e)] in
     (case googleAuth_new w (service_account e) of
        Some err \<Rightarrow> (Inl err, t1)
      | None \<Rightarrow>
       let t2 = t1 @ [GoogleSheets ''v4''] in
     (case google_sheets w of
        Some err \<Rightarrow> (Inl err, t2)
      | None \<Rightarrow>
       let t3 = t2 @ [SpreadsheetsGet (interp (GOOGLE_SHEETS_ID e))] in
     (case spreadsheets_get w (interp (GOOGLE_SHEETS_ID e)) of
        Some err \<Rightarrow>
          (Inr (Json 403
                 [(''message'',
                   ''Failed to access spreadsheet. Please verify permissions and spreadsheet ID.'')]),
           t3 @ [SheetsConsoleError ''Failed to access spreadsheet:''])
      | None \<Rightarrow>
       let params = \<lparr>spreadsheetId = interp (GOOGLE_SHEETS_ID e),
                     range_a1 = ''A:E'',
                     valueInputOption = ''USER_ENTERED'',
                     values_rows = [[name, email, phone, plan,
                                Val (JStr (formattedDate (current_date w)))]]\<rparr>;
           t4 = t3 @ [ValuesAppend params]
       in
     (case values_append w params of
        Inl err \<Rightarrow> (Inl err, t4)
      | Inr status \<Rightarrow>
          (Inr (Json 200 [(''message'', ''Success'')]),
           t4 @ [SheetsConsoleLog ''Append response:''])))))))"

text \<open>Lines 5 to 71: the outer \<^verbatim>\<open>catch\<close> turns every exception into a 500 response.\<close>

definition POST :: "env \<Rightarrow> sheets_world \<Rightarrow> lead_request \<Rightarrow> response \<times> sheets_event list" where
  "POST e w request =
     (case POST_try e w request of
        (Inr r, t) \<Rightarrow> (r, t)
      | (Inl err, t) \<Rightarrow>
          (Json 500 [(''message'', ''Internal server error''),
                     (''error'', err_message err),
                     (''type'', err_name err)],
           t @ [SheetsConsoleError ''Detailed error:'']))"

text \<open>The appended rows of a trace, in order.\<close>

fun appended_rows :: "sheets_event list \<Rightarrow> jsval list list" where
  "appended_rows [] = []"
| "appended_rows (ValuesAppend p # es) = values_rows p @ appended_rows es"
| "appended_rows (_ # es) = appended_rows es"

text \<open>A call that leaves the process: everything but the console.\<close>

fun external_call :: "sheets_event \<Rightarrow> bool" where
  "external_call (SheetsConsoleError _) = False"
| "external_call (SheetsConsoleLog _) = False"
| "external_call _ = True"

section \<open>The email verification handler (GET)\<close>

text \<open>
  The request carries what \<^verbatim>\<open>searchParams.get('token')\<close> and \<^verbatim>\<open>searchParams.get('tenant')\<close>
  return: a string, or nothing when the parameter is not in the URL. (\<^verbatim>\<open>request.url\<close>
  is always an absolute URL, so line 83 does not throw.)
\<close>

record verify_request =
  token_param :: "string option"
  tenant_param :: "string option"

text \<open>
  The two claims of a decoded email token that the handler reads. Each is a string (the
  token is issued with an email and a tenant path) or is absent.
\<close>

record decoded_token =
  decoded_email :: "string option"
  decoded_tenant :: "string option"

text \<open>
  A user document. Its \<^verbatim>\<open>_id\<close> is its position in the tenant's collection (the handler
  never deletes, so positions are stable and unique).
\<close>

record user_doc =
  email :: "string option"
  tenantPath :: "string option"
  role :: string
  createdAt :: "nat option"
  lastLoginAt :: "nat option"

datatype session_payload =
  SessionPayload (p_email: "string option") (p_userId: string) (p_tenantPath: "string option")
    (p_role: string) (p_authenticated: bool) (p_externalDomain: string)

record cookie_options =
  httpOnly :: bool
  secure :: bool
  sameSite :: string
  maxAge :: nat
  cookie_path :: string
  cookie_domain :: string

datatype verify_event =
    JwtVerify string string
  | ConnectDB string
  | GetTenantModel string
  | FindOne "string option"
  | Save nat user_doc
  | SignJWT session_payload string string string
  | Cookies
  | CookieSet string string cookie_options
  | ConsoleError string
  | ConsoleLog string

text \<open>
  The collaborators: the token library (\<open>jwt_verify token secret\<close>, \<open>sign payload secret\<close>),
  the database layer, the cookie store, the clock (\<open>clock k\<close> is the \<open>k\<close>-th
  \<^verbatim>\<open>new Date()\<close> of the request, as a timestamp) and the platform's URL parser
  (\<open>url_parses u\<close>: \<^verbatim>\<open>new URL(u)\<close> does not throw). \<open>save_throws k\<close> answers the
  \<open>k\<close>-th \<^verbatim>\<open>user.save()\<close> of the request.
\<close>

record verify_world =
  jwt_verify :: "string \<Rightarrow> string \<Rightarrow> js_error + decoded_token"
  connectDB :: "string \<Rightarrow> js_error option"
  getTenantModel :: "js_error option"
  findOne_throws :: "js_error option"
  save_throws :: "nat \<Rightarrow> js_error option"
  default_role :: string
  sign :: "session_payload \<Rightarrow> string \<Rightarrow> js_error + string"
  cookies_throws :: "js_error option"
  cookie_set_throws :: "js_error option"
  clock :: "nat \<Rightarrow> nat"
  url_parses :: "string \<Rightarrow> bool"

text \<open>What a request changes: the trace of calls, and each tenant's user collection.\<close>

record verify_state =
  events :: "verify_event list"
  users :: "string \<Rightarrow> user_doc list"

definition emit :: "verify_event \<Rightarrow> verify_state \<Rightarrow> verify_state" where
  "emit ev s = s\<lparr>events := events s @ [ev]\<rparr>"

text \<open>Lines 77 to 79: the module's constants.\<close>

definition EMAIL_SECRET :: "env \<Rightarrow> string" where
  "EMAIL_SECRET e =
     (if falsy (EMAIL_SECRET_var e) then ''your-secret-key'' else interp (EMAIL_SECRET_var e))"

definition JWT_SECRET :: "env \<Rightarrow> string" where
  "JWT_SECRET e =
     (if falsy (JWT_SECRET_var e) then ''your-jwt-secret'' else interp (JWT_SECRET_var e))"

definition EXTERNAL_APP_URL :: string where
  "EXTERNAL_APP_URL = ''https://app.liveplus.pro''"

text \<open>\<^verbatim>\<open>NextResponse.redirect(new URL(u))\<close>: the constructor throws on a string it cannot parse.\<close>

definition redirect :: "verify_world \<Rightarrow> string \<Rightarrow> js_error + response" where
  "redirect w u = (if url_parses w u then Inr (Redirect u) else Inl (JsError ''TypeError'' ''Invalid URL''))"

text \<open>
  Modelled from the spec: the tenant-scoped document store of \<^verbatim>\<open>@/lib/mongodb\<close> and its
  \<^verbatim>\<open>User\<close> model, which are not among the source files ("a tenant-scoped document store
  exposing find-by-email, create, and save operations on a user entity"; "first user in
  a tenant becomes owner"). \<open>findOne\<close> gives the first document with the email and its
  position; \<open>persist\<close> writes a document back at its position, or inserts a new one at
  the end after the creation hook has set its role.
\<close>

fun findOne :: "user_doc list \<Rightarrow> string option \<Rightarrow> (nat \<times> user_doc) option" where
  "findOne [] addr = None"
| "findOne (u # us) addr =
     (if email u = addr then Some (0, u)
      else map_option (\<lambda>(i, d). (Suc i, d)) (findOne us addr))"

definition persist :: "user_doc list \<Rightarrow> nat \<Rightarrow> user_doc \<Rightarrow> user_doc \<times> user_doc list" where
  "persist coll i u =
     (if i < length coll then (u, coll[i := u])
      else let u' = u\<lparr>role := (if coll = [] then ''owner'' else role u)\<rparr>
           in (u', coll @ [u']))"

text \<open>\<^verbatim>\<open>await user.save()\<close>, the \<open>k\<close>-th of the request, for the document at position \<open>i\<close>.\<close>

definition save ::
  "verify_world \<Rightarrow> nat \<Rightarrow> string \<Rightarrow> nat \<Rightarrow> user_doc \<Rightarrow> verify_state
     \<Rightarrow> (js_error + user_doc) \<times> verify_state" where
  "save w k tenant i u s =
     (let s1 = emit (Save i u) s in
      case save_throws w k of
        Some err \<Rightarrow> (Inl err, s1)
      | None \<Rightarrow>
          (case persist (users s1 tenant) i u of
             (u', coll') \<Rightarrow> (Inr u', s1\<lparr>users := (users s1)(tenant := coll')\<rparr>)))"

text \<open>Lines 160 and 161: refresh \<^verbatim>\<open>lastLoginAt\<close> and save.\<close>

definition update_last_login ::
  "verify_world \<Rightarrow> nat \<Rightarrow> nat \<Rightarrow> string \<Rightarrow> nat \<Rightarrow> user_doc \<Rightarrow> verify_state
     \<Rightarrow> (js_error + nat \<times> user_doc) \<times> verify_state" where
  "update_last_login w k t tenant i user s =
     (case save w k tenant i (user\<lparr>lastLoginAt := Some t\<rparr>) s of
        (Inl err, s1) \<Rightarrow> (Inl err, s1)
      | (Inr user1, s1) \<Rightarrow> (Inr (i, user1), s1))"

text \<open>Lines 141 to 161, the body of the \<^verbatim>\<open>try\<close> around the user operations.\<close>

definition find_or_create_user ::
  "verify_world \<Rightarrow> string \<Rightarrow> decoded_token \<Rightarrow> verify_state
     \<Rightarrow> (js_error + nat \<times> user_doc) \<times> verify_state" where
  "find_or_create_user w tenant decoded s =
     (let s1 = emit (FindOne (decoded_email decoded)) s in
      case findOne_throws w of
        Some err \<Rightarrow> (Inl err, s1)
      | None \<Rightarrow>
     (case findOne (users s1 tenant) (decoded_email decoded) of
        Some (i, user) \<Rightarrow>
          if falsy (tenantPath user) then
            (case save w 0 tenant i (user\<lparr>tenantPath := Some tenant\<rparr>) s1 of
               (Inl err, s2) \<Rightarrow> (Inl err, s2)
             | (Inr user1, s2) \<Rightarrow> update_last_login w 1 (clock w 0) tenant i user1 s2)
          else update_last_login w 0 (clock w 0) tenant i user s1
      | None \<Rightarrow>
          let i = length (users s1 tenant);
              user = \<lparr>email = decoded_email decoded,
                      tenantPath = Some tenant,
                      role = default_role w,
                      createdAt = Some (clock w 0),
                      lastLoginAt = Some (clock w 1)\<rparr>
          in
            (case save w 0 tenant i user s1 of
               (Inl err, s2) \<Rightarrow> (Inl err, s2)
             | (Inr user1, s2) \<Rightarrow> update_last_login w 1 (clock w 2) tenant i user1 s2)))"

text \<open>Lines 178 to 205, the body of the \<^verbatim>\<open>try\<close> that signs the session and sets the cookie.\<close>

definition create_session ::
  "env \<Rightarrow> verify_world \<Rightarrow> string \<Rightarrow> decoded_token \<Rightarrow> nat \<Rightarrow> user_doc \<Rightarrow> verify_state
     \<Rightarrow> (js_error + response) \<times> verify_state" where
  "create_session e w tenantUrl decoded i user s =
     (let payload = SessionPayload (decoded_email decoded) (String_nat i) (tenantPath user)
                      (role user) True EXTERNAL_APP_URL;
          s1 = emit (SignJWT payload ''HS256'' ''7d'' (JWT_SECRET e)) s
      in
      case sign w payload (JWT_SECRET e) of
        Inl err \<Rightarrow> (Inl err, s1)
      | Inr sessionToken \<Rightarrow>
       let s2 = emit Cookies s1 in
     (case cookies_throws w of
        Some err \<Rightarrow> (Inl err, s2)
      | None \<Rightarrow>
       let s3 = emit (CookieSet ''auth_token'' sessionToken
                        \<lparr>httpOnly = True, secure = True, sameSite = ''none'',
                         maxAge = 7 * 24 * 60 * 60, cookie_path = ''/'',
                         cookie_domain = ''.liveplus.pro''\<rparr>) s2 in
     (case cookie_set_throws w of
        Some err \<Rightarrow> (Inl err, s3)
      | None \<Rightarrow> (redirect w tenantUrl, emit (ConsoleLog ''Redirecting to:'') s3))))"

text \<open>Lines 123 to 209: what runs once the token and the tenant have been accepted.\<close>

definition GET_verified ::
  "env \<Rightarrow> verify_world \<Rightarrow> decoded_token \<Rightarrow> string \<Rightarrow> verify_state
     \<Rightarrow> (js_error + response) \<times> verify_state" where
  "GET_verified e w decoded tenant s =
     (let tenantUrl = EXTERNAL_APP_URL @ ''/'' @ tenant @ ''/financeiro'';
          s1 = emit (ConnectDB tenant) s
      in
      case connectDB w tenant of
        Some err \<Rightarrow>
          (redirect w (tenantUrl @ ''/?error=database-error''),
           emit (ConsoleError ''Database connection failed:'') s1)
      | None \<Rightarrow>
       let s2 = emit (GetTenantModel ''User'') s1 in
     (case getTenantModel w of
        Some err \<Rightarrow> (Inl err, s2)
      | None \<Rightarrow>
     (case find_or_create_user w tenant decoded s2 of
        (Inl err, s3) \<Rightarrow>
          (redirect w (tenantUrl @ ''/?error=user-error''),
           emit (ConsoleError ''User operations failed:'') s3)
      | (Inr (i, user), s3) \<Rightarrow>
     (case create_session e w tenantUrl decoded i user (emit (ConsoleLog ''User login:'') s3) of
        (Inl err, s4) \<Rightarrow>
          (redirect w (tenantUrl @ ''/?error=session-error''),
           emit (ConsoleError ''Session creation failed:'') s4)
      | (Inr r, s4) \<Rightarrow> (Inr r, s4)))))"

text \<open>
  Lines 83 to 209, the body of the outer \<^verbatim>\<open>try\<close>. \<open>Inl e\<close> is an exception that reaches
  the outer \<^verbatim>\<open>catch\<close>; a redirect whose URL does not parse is one. Past a truthiness
  guard a value is a string, which \<open>interp\<close> returns.
\<close>

definition GET_try ::
  "env \<Rightarrow> verify_world \<Rightarrow> verify_request \<Rightarrow> verify_state
     \<Rightarrow> (js_error + response) \<times> verify_state" where
  "GET_try e w request s =
     (let baseUrl = interp (NEXT_PUBLIC_APP_URL e) in
      if falsy (token_param request) then
        (redirect w (baseUrl @ ''/?error=invalid-token''),
         emit (ConsoleError ''No token provided'') s)
      else
        let token = interp (token_param request);
            s1 = emit (JwtVerify token (EMAIL_SECRET e)) s
        in
      case jwt_verify w token (EMAIL_SECRET e) of
        Inl err \<Rightarrow>
          (redirect w (baseUrl @ ''/?error=invalid-token''),
           emit (ConsoleError ''Token verification failed:'') s1)
      | Inr decoded \<Rightarrow>
        let (tenant, s2) =
              (if falsy (tenant_param request) \<and> \<not> falsy (decoded_tenant decoded)
               then (decoded_tenant decoded, emit (ConsoleLog ''Retrieved tenant from token:'') s1)
               else (tenant_param request, s1))
        in
        if falsy tenant then
          (redirect w (baseUrl @ ''/?error=invalid-tenant''),
           emit (ConsoleError ''No tenant provided'') s2)
        else if tenant \<noteq> decoded_tenant decoded then
          (redirect w (baseUrl @ ''/?error=invalid-tenant''),
           emit (ConsoleError ''Tenant mismatch:'') s2)
        else GET_verified e w decoded (interp tenant) s2)"

text \<open>What the caller of a handler sees: a response, or an exception that escaped it.\<close>

datatype outcome = Returns response | Throws js_error

text \<open>
  Lines 81 to 215. The outer \<^verbatim>\<open>catch\<close> builds its own redirect with \<^verbatim>\<open>new URL\<close>; when that
  throws, nothing catches it. The request starts with an empty trace and the
  collections \<open>db\<close>.
\<close>

definition GET ::
  "env \<Rightarrow> verify_world \<Rightarrow> verify_request \<Rightarrow> (string \<Rightarrow> user_doc list)
     \<Rightarrow> outcome \<times> verify_state" where
  "GET e w request db =
     (case GET_try e w request \<lparr>events = [], users = db\<rparr> of
        (Inr r, s) \<Rightarrow> (Returns r, s)
      | (Inl err, s) \<Rightarrow>
          (case redirect w (interp (NEXT_PUBLIC_APP_URL e) @ ''/?error=server-error'') of
             Inr r \<Rightarrow> (Returns r, emit (ConsoleError ''Verification error:'') s)
           | Inl err2 \<Rightarrow> (Throws err2, emit (ConsoleError ''Verification error:'') s)))"

section \<open>The specification's terms\<close>

text \<open>
  The text \<^verbatim>\<open>DD/MM/YYYY\<close> of a day, a month (counted from 1) and a year: two digits, a
  slash, two digits, a slash, four digits.
\<close>

definition DD_MM_YYYY :: "nat \<Rightarrow> nat \<Rightarrow> nat \<Rightarrow> string" where
  "DD_MM_YYYY d m y =
     [digit (d div 10), digit (d mod 10), CHR ''/'',
      digit (m div 10), digit (m mod 10), CHR ''/'',
      digit (y div 1000), digit (y div 100 mod 10), digit (y div 10 mod 10), digit (y mod 10)]"

text \<open>
  Step 3 of the pipeline as the specification words it: the tenant of the request, or
  the token's tenant when the request has none and the token has one.
\<close>

definition resolved_tenant :: "verify_request \<Rightarrow> decoded_token \<Rightarrow> string option" where
  "resolved_tenant request decoded =
     (if falsy (tenant_param request) \<and> \<not> falsy (decoded_tenant decoded)
      then decoded_tenant decoded else tenant_param request)"

text \<open>
  "EmailToken validity and tenant-match are confirmed": the request has a token, the
  token library accepts it under the email secret, and the resolved tenant is present
  and equal to the tenant embedded in the token.
\<close>

definition verification_passed :: "env \<Rightarrow> verify_world \<Rightarrow> verify_request \<Rightarrow> bool" where
  "verification_passed e w request =
     (\<not> falsy (token_param request) \<and>
      (case jwt_verify w (interp (token_param request)) (EMAIL_SECRET e) of
         Inl err \<Rightarrow> False
       | Inr decoded \<Rightarrow>
           \<not> falsy (resolved_tenant request decoded) \<and>
           resolved_tenant request decoded = decoded_tenant decoded))"

text \<open>The calls that reach the database, and the calls that issue the session.\<close>

fun database_event :: "verify_event \<Rightarrow> bool" where
  "database_event (ConnectDB t) = True"
| "database_event (GetTenantModel m) = True"
| "database_event (FindOne addr) = True"
| "database_event (Save i u) = True"
| "database_event ev = False"

fun session_event :: "verify_event \<Rightarrow> bool" where
  "session_event (SignJWT p a x k) = True"
| "session_event Cookies = True"
| "session_event (CookieSet n v opts) = True"
| "session_event ev = False"

text \<open>The console lines of the two tenant checks, lines 113 and 119.\<close>

fun tenant_rejection :: "verify_event \<Rightarrow> bool" where
  "tenant_rejection (ConsoleError m) = (m = ''No tenant provided'' \<or> m = ''Tenant mismatch:'')"
| "tenant_rejection ev = False"

text \<open>The state \<open>s'\<close> continues \<open>s\<close> with events that all satisfy \<open>P\<close>.\<close>

definition grows_by :: "(verify_event \<Rightarrow> bool) \<Rightarrow> verify_state \<Rightarrow> verify_state \<Rightarrow> bool" where
  "grows_by P s s' = (\<exists>evs. events s' = events s @ evs \<and> list_all P evs)"


text \<open>
  The events of lines 123 to 209 under an environment: database and session calls, the
  console lines of those stages, and no token verification; a signing call uses the
  session secret and carries the external domain.
\<close>

fun stage_event :: "env \<Rightarrow> verify_event \<Rightarrow> bool" where
  "stage_event e (JwtVerify t k) = False"
| "stage_event e (ConsoleError m) =
     (m = ''Database connection failed:'' \<or> m = ''User operations failed:''
        \<or> m = ''Session creation failed:'')"
| "stage_event e (ConsoleLog m) = (m = ''User login:'' \<or> m = ''Redirecting to:'')"
| "stage_event e (SignJWT p a x k) = (k = JWT_SECRET e \<and> p_externalDomain p = EXTERNAL_APP_URL)"
| "stage_event e ev = True"

text \<open>The events of lines 83 to 121: the token verification and the console.\<close>

fun check_event :: "env \<Rightarrow> verify_event \<Rightarrow> bool" where
  "check_event e (JwtVerify t k) = (k = EMAIL_SECRET e)"
| "check_event e (ConsoleError m) = True"
| "check_event e (ConsoleLog m) = True"
| "check_event e ev = False"

text \<open>The state a request starts in.\<close>

definition initial :: "(string \<Rightarrow> user_doc list) \<Rightarrow> verify_state" where
  "initial db = \<lparr>events = [], users = db\<rparr>"

text \<open>The tenant's landing page on the external application, line 124.\<close>

definition landing :: "string \<Rightarrow> string" where
  "landing tenant = EXTERNAL_APP_URL @ ''/'' @ tenant @ ''/financeiro''"

section \<open>Concrete inputs\<close>

text \<open>A configured environment, a spreadsheet service that answers every call, and a lead.\<close>

definition sheets_env :: env where
  "sheets_env =
     \<lparr>GOOGLE_SHEETS_ID = Some ''sheet-1'',
      GOOGLE_SHEETS_CLIENT_EMAIL = Some ''svc@example.iam'',
      GOOGLE_SHEETS_PRIVATE_KEY = Some ''key'',
      EMAIL_SECRET_var = None, JWT_SECRET_var = None, NEXT_PUBLIC_APP_URL = None\<rparr>"

definition sheets_up :: sheets_world where
  "sheets_up =
     \<lparr>googleAuth_new = (\<lambda>c. None), google_sheets = None,
      spreadsheets_get = (\<lambda>i. None), values_append = (\<lambda>p. Inr 200),
      current_date = \<lparr>getDate = 3, getMonth = 10, getFullYear = 2026\<rparr>\<rparr>"

text \<open>A body with an empty email, a number for a plan and no phone.\<close>

definition lead_body :: json where
  "lead_body = JObj [(''name'', JStr ''Ana''), (''email'', JStr []), (''plan'', JNum 7)]"

text \<open>
  The first step of the platform's URL parser (the WHATWG scheme states, with no base
  URL): a string that does not start with a letter followed by letters, digits,
  \<open>+\<close>, \<open>-\<close> or \<open>.\<close> up to a colon is refused. It stands for the parser in
  the concrete worlds below, whose other URLs are absolute \<open>https\<close> URLs.
\<close>

fun scheme_rest :: "string \<Rightarrow> bool" where
  "scheme_rest [] = False"
| "scheme_rest (c # cs) =
     (if c = CHR '':'' then True
      else if c \<in> set ''abcdefghijklmnopqrstuvwxyzABCDEFGHIJKLMNOPQRSTUVWXYZ0123456789+-.''
      then scheme_rest cs else False)"

definition has_scheme :: "string \<Rightarrow> bool" where
  "has_scheme u =
     (case u of
        [] \<Rightarrow> False
      | c # cs \<Rightarrow>
          c \<in> set ''abcdefghijklmnopqrstuvwxyzABCDEFGHIJKLMNOPQRSTUVWXYZ'' \<and> scheme_rest cs)"

text \<open>
  A token library that accepts one token, for \<^verbatim>\<open>a@x.com\<close> in tenant \<^verbatim>\<open>acme\<close>, under one
  key, and signs under one key.
\<close>

definition token_of :: "string \<Rightarrow> string \<Rightarrow> string \<Rightarrow> js_error + decoded_token" where
  "token_of key t k =
     (if t = ''tok-acme'' \<and> k = key
      then Inr \<lparr>decoded_email = Some ''a@x.com'', decoded_tenant = Some ''acme''\<rparr>
      else Inl (JsError ''JsonWebTokenError'' ''invalid signature''))"

definition sign_with :: "string \<Rightarrow> session_payload \<Rightarrow> string \<Rightarrow> js_error + string" where
  "sign_with key p k =
     (if k = key then Inr ''session-1'' else Inl (JsError ''JWSInvalid'' ''wrong key''))"

text \<open>A world where every other collaborator answers, for the two keys given.\<close>

definition verify_world_of :: "string \<Rightarrow> string \<Rightarrow> verify_world" where
  "verify_world_of email_key session_key =
     \<lparr>jwt_verify = token_of email_key, connectDB = (\<lambda>t. None), getTenantModel = None,
      findOne_throws = None, save_throws = (\<lambda>k. None), default_role = ''member'',
      sign = sign_with session_key, cookies_throws = None, cookie_set_throws = None,
      clock = (\<lambda>k. 1000 + k), url_parses = has_scheme\<rparr>"

definition verify_env :: env where
  "verify_env =
     \<lparr>GOOGLE_SHEETS_ID = None, GOOGLE_SHEETS_CLIENT_EMAIL = None,
      GOOGLE_SHEETS_PRIVATE_KEY = None,
      EMAIL_SECRET_var = Some ''email-key'', JWT_SECRET_var = Some ''session-key'',
      NEXT_PUBLIC_APP_URL = Some ''https://lp.example''\<rparr>"

definition verify_up :: verify_world where
  "verify_up = verify_world_of ''email-key'' ''session-key''"

text \<open>An environment with none of the verification handler's variables set.\<close>

definition bare_env :: env where
  "bare_env =
     \<lparr>GOOGLE_SHEETS_ID = None, GOOGLE_SHEETS_CLIENT_EMAIL = None,
      GOOGLE_SHEETS_PRIVATE_KEY = None,
      EMAIL_SECRET_var = None, JWT_SECRET_var = None, NEXT_PUBLIC_APP_URL = None\<rparr>"

definition no_users :: "string \<Rightarrow> user_doc list" where
  "no_users = (\<lambda>t. [])"

text \<open>The user \<^verbatim>\<open>a@x.com\<close> as the first verification leaves it, and after a second one.\<close>

definition first_login :: user_doc where
  "first_login =
     \<lparr>email = Some ''a@x.com'', tenantPath = Some ''acme'', role = ''owner'',
      createdAt = Some 1000, lastLoginAt = Some 1002\<rparr>"

definition acme_request :: verify_request where
  "acme_request = \<lparr>token_param = Some ''tok-acme'', tenant_param = None\<rparr>"

section \<open>Lemmas on the lead submission handler\<close>

lemma String_nat_1: "n < 10 \<Longrightarrow> String_nat n = [digit n]"
  by (simp add: String_nat.simps)

lemma String_nat_2:
  "10 \<le> n \<Longrightarrow> n < 100 \<Longrightarrow> String_nat n = [digit (n div 10), digit (n mod 10)]"
  by (subst String_nat.simps) (simp add: String_nat_1)

lemma String_nat_3:
  "100 \<le> n \<Longrightarrow> n < 1000 \<Longrightarrow>
   String_nat n = [digit (n div 100), digit (n div 10 mod 10), digit (n mod 10)]"
  by (subst String_nat.simps) (simp add: String_nat_2 div_mult2_eq[symmetric])

lemma String_nat_4:
  "1000 \<le> n \<Longrightarrow> n < 10000 \<Longrightarrow>
   String_nat n =
     [digit (n div 1000), digit (n div 100 mod 10), digit (n div 10 mod 10), digit (n mod 10)]"
  by (subst String_nat.simps) (simp add: String_nat_3 div_mult2_eq[symmetric])

lemma padStart_two_digits:
  assumes "n < 100"
  shows "padStart 2 CHR ''0'' (String_nat n) = [digit (n div 10), digit (n mod 10)]"
proof (cases "n < 10")
  case True
  then show ?thesis by (simp add: String_nat_1 padStart_def digit_def)
next
  case False
  with assms show ?thesis by (simp add: String_nat_2 padStart_def)
qed

lemma formattedDate_DD_MM_YYYY:
  assumes "getDate d \<le> 31" "getMonth d \<le> 11" "1000 \<le> getFullYear d" "getFullYear d \<le> 9999"
  shows "formattedDate d = DD_MM_YYYY (getDate d) (getMonth d + 1) (nat (getFullYear d))"
proof -
  have y: "String_int (getFullYear d) =
      [digit (nat (getFullYear d) div 1000), digit (nat (getFullYear d) div 100 mod 10),
       digit (nat (getFullYear d) div 10 mod 10), digit (nat (getFullYear d) mod 10)]"
    using assms(3,4) by (simp add: String_int_def String_nat_4)
  have dd: "padStart 2 CHR ''0'' (String_nat (getDate d)) =
      [digit (getDate d div 10), digit (getDate d mod 10)]"
    using assms(1) by (simp add: padStart_two_digits)
  have mm: "padStart 2 CHR ''0'' (String_nat (getMonth d + 1)) =
      [digit ((getMonth d + 1) div 10), digit ((getMonth d + 1) mod 10)]"
    using assms(2) by (simp add: padStart_two_digits)
  show ?thesis
    unfolding formattedDate_def DD_MM_YYYY_def y dd mm by simp
qed

lemma destructure_eq:
  "destructure b =
     (if b = JNull then Inl (JsError ''TypeError'' ''Cannot destructure property of null'')
      else Inr (get_prop b ''name'', get_prop b ''email'', get_prop b ''phone'', get_prop b ''plan''))"
  by (cases b) (simp_all add: destructure_def)

text \<open>An append call in the trace fixes the body, the parameters and the response.\<close>

lemma POST_try_append:
  assumes "ValuesAppend p \<in> set (snd (POST_try e w request))"
  shows "\<exists>b. json_body request = Inr b \<and> b \<noteq> JNull
      \<and> p = \<lparr>spreadsheetId = interp (GOOGLE_SHEETS_ID e), range_a1 = ''A:E'',
             valueInputOption = ''USER_ENTERED'',
             values_rows = [[get_prop b ''name'', get_prop b ''email'', get_prop b ''phone'',
                             get_prop b ''plan'', Val (JStr (formattedDate (current_date w)))]]\<rparr>
      \<and> appended_rows (snd (POST_try e w request)) = values_rows p
      \<and> fst (POST_try e w request) =
          (case values_append w p of Inl err \<Rightarrow> Inl err
           | Inr st \<Rightarrow> Inr (Json 200 [(''message'', ''Success'')]))"
  using assms
  by (auto simp: POST_try_def destructure_eq Let_def
      split: sum.splits if_splits option.splits)

text \<open>With the configuration present and the three calls before it answered, the append is made.\<close>

lemma POST_try_reaches_append:
  assumes "json_body request = Inr b" "b \<noteq> JNull"
    and "\<not> falsy (GOOGLE_SHEETS_ID e)" "\<not> falsy (GOOGLE_SHEETS_CLIENT_EMAIL e)"
        "\<not> falsy (GOOGLE_SHEETS_PRIVATE_KEY e)"
    and "googleAuth_new w (service_account e) = None" "google_sheets w = None"
        "spreadsheets_get w (interp (GOOGLE_SHEETS_ID e)) = None"
  shows "ValuesAppend \<lparr>spreadsheetId = interp (GOOGLE_SHEETS_ID e), range_a1 = ''A:E'',
             valueInputOption = ''USER_ENTERED'',
             values_rows = [[get_prop b ''name'', get_prop b ''email'', get_prop b ''phone'',
                             get_prop b ''plan'', Val (JStr (formattedDate (current_date w)))]]\<rparr>
          \<in> set (snd (POST_try e w request))"
  using assms
  by (simp add: POST_try_def destructure_eq Let_def split: sum.splits)

lemma POST_trace:
  "snd (POST e w request) =
     (case fst (POST_try e w request) of
        Inr r \<Rightarrow> snd (POST_try e w request)
      | Inl err \<Rightarrow> snd (POST_try e w request) @ [SheetsConsoleError ''Detailed error:''])"
  by (simp add: POST_def split: prod.splits sum.splits)

lemma POST_response:
  "fst (POST e w request) =
     (case fst (POST_try e w request) of
        Inr r \<Rightarrow> r
      | Inl err \<Rightarrow> Json 500 [(''message'', ''Internal server error''),
                            (''error'', err_message err), (''type'', err_name err)])"
  by (simp add: POST_def split: prod.splits sum.splits)

lemma appended_rows_append: "appended_rows (xs @ ys) = appended_rows xs @ appended_rows ys"
  by (induction xs rule: appended_rows.induct) simp_all

lemma POST_append_iff:
  "ValuesAppend p \<in> set (snd (POST e w request))
     \<longleftrightarrow> ValuesAppend p \<in> set (snd (POST_try e w request))"
  by (simp add: POST_trace split: sum.splits)

lemma POST_appended_rows:
  "appended_rows (snd (POST e w request)) = appended_rows (snd (POST_try e w request))"
  by (simp add: POST_trace appended_rows_append split: sum.splits)

text \<open>A 200 response comes from the last line of the body only, after an answered append.\<close>

lemma POST_try_success:
  assumes "fst (POST_try e w request) = Inr (Json 200 body)"
  shows "\<exists>p st. ValuesAppend p \<in> set (snd (POST_try e w request))
     \<and> values_append w p = Inr st \<and> body = [(''message'', ''Success'')]"
  using assms
  by (auto simp: POST_try_def destructure_eq Let_def
      split: sum.splits if_splits option.splits)

section \<open>Claims on the lead submission handler\<close>

text \<open>
  C5. When a submission succeeds, that is when the handler answers with status 200, the
  handler has made exactly one append call, to the configured sheet and the range
  \<^verbatim>\<open>A:E\<close>, the call was answered, its single row has the five fields name, email,
  phone, plan and date as read from the body, the date is the current date written
  \<^verbatim>\<open>DD/MM/YYYY\<close> with day and month padded to two digits, and the response is the
  success result. The current date is a calendar date with a four-digit year.
\<close>

theorem lead_row_appended_on_success:
  assumes "fst (POST e w request) = Json 200 body"
    and "getDate (current_date w) \<le> 31"
    and "getMonth (current_date w) \<le> 11"
    and "1000 \<le> getFullYear (current_date w)" "getFullYear (current_date w) \<le> 9999"
  shows "\<exists>b p st. json_body request = Inr b
     \<and> ValuesAppend p \<in> set (snd (POST e w request))
     \<and> spreadsheetId p = interp (GOOGLE_SHEETS_ID e) \<and> range_a1 p = ''A:E''
     \<and> values_rows p =
         [[get_prop b ''name'', get_prop b ''email'', get_prop b ''phone'', get_prop b ''plan'',
           Val (JStr (DD_MM_YYYY (getDate (current_date w)) (getMonth (current_date w) + 1)
                        (nat (getFullYear (current_date w)))))]]
     \<and> values_append w p = Inr st
     \<and> appended_rows (snd (POST e w request)) = values_rows p
     \<and> length (filter (\<lambda>ev. case ev of ValuesAppend q \<Rightarrow> True | _ \<Rightarrow> False)
                 (snd (POST e w request))) = 1
     \<and> body = [(''message'', ''Success'')]"
proof -
  from assms(1) have t: "fst (POST_try e w request) = Inr (Json 200 body)"
    by (auto simp: POST_response split: sum.splits)
  from POST_try_success [OF t] obtain p st
    where a: "ValuesAppend p \<in> set (snd (POST_try e w request))"
      and ok: "values_append w p = Inr st"
      and body: "body = [(''message'', ''Success'')]"
    by blast
  from POST_try_append [OF a] obtain b where b: "json_body request = Inr b"
    and p: "p = \<lparr>spreadsheetId = interp (GOOGLE_SHEETS_ID e), range_a1 = ''A:E'',
             valueInputOption = ''USER_ENTERED'',
             values_rows = [[get_prop b ''name'', get_prop b ''email'', get_prop b ''phone'',
                             get_prop b ''plan'', Val (JStr (formattedDate (current_date w)))]]\<rparr>"
    and rows: "appended_rows (snd (POST_try e w request)) = values_rows p"
    by blast
  have d: "formattedDate (current_date w) =
      DD_MM_YYYY (getDate (current_date w)) (getMonth (current_date w) + 1)
        (nat (getFullYear (current_date w)))"
    using assms(2-5) by (rule formattedDate_DD_MM_YYYY)
  have r0: "ValuesAppend p \<in> set (snd (POST e w request))"
    using a by (simp add: POST_append_iff)
  have r1: "values_rows p =
         [[get_prop b ''name'', get_prop b ''email'', get_prop b ''phone'', get_prop b ''plan'',
           Val (JStr (DD_MM_YYYY (getDate (current_date w)) (getMonth (current_date w) + 1)
                        (nat (getFullYear (current_date w)))))]]"
    using p d by simp
  have r2: "appended_rows (snd (POST e w request)) = values_rows p"
    using rows by (simp add: POST_appended_rows)
  have r3: "length (filter (\<lambda>ev. case ev of ValuesAppend q \<Rightarrow> True | _ \<Rightarrow> False)
                 (snd (POST e w request))) = 1"
    using a b ok
    by (auto simp: POST_trace POST_try_def destructure_eq Let_def
        split: sum.splits if_splits option.splits)
  have r4: "spreadsheetId p = interp (GOOGLE_SHEETS_ID e) \<and> range_a1 p = ''A:E''"
    using p by simp
  from b r0 r1 r2 r3 r4 ok body show ?thesis by blast
qed

theorem lead_row_appended_on_success_witness:
  "fst (POST sheets_env sheets_up \<lparr>json_body = Inr lead_body\<rparr>) =
       Json 200 [(''message'', ''Success'')]
   \<and> (\<exists>p. ValuesAppend p \<in> set (snd (POST sheets_env sheets_up \<lparr>json_body = Inr lead_body\<rparr>))
        \<and> spreadsheetId p = ''sheet-1'' \<and> range_a1 p = ''A:E''
        \<and> values_rows p =
            [[Val (JStr ''Ana''), Val (JStr []), Undefined, Val (JNum 7), Val (JStr ''03/11/2026'')]]
        \<and> appended_rows (snd (POST sheets_env sheets_up \<lparr>json_body = Inr lead_body\<rparr>))
            = values_rows p)"
proof -
  have h: "fst (POST sheets_env sheets_up \<lparr>json_body = Inr lead_body\<rparr>) =
       Json 200 [(''message'', ''Success'')]"
    by (simp add: POST_def POST_try_def destructure_eq sheets_env_def sheets_up_def lead_body_def
        falsy_def Let_def)
  have d: "getDate (current_date sheets_up) \<le> 31" "getMonth (current_date sheets_up) \<le> 11"
      "1000 \<le> getFullYear (current_date sheets_up)" "getFullYear (current_date sheets_up) \<le> 9999"
    by (simp_all add: sheets_up_def)
  from lead_row_appended_on_success [OF h d] h
  show ?thesis
    by (auto simp: sheets_env_def sheets_up_def lead_body_def get_prop_def DD_MM_YYYY_def
        digit_def interp_def)
qed

text \<open>
  C6. A submission made while the sheet id, the client email or the private key is unset
  (or empty) gets a 500 response, and the handler has made no call to the spreadsheet
  client: its trace holds nothing but the console.
\<close>

theorem missing_sheets_env_is_500:
  assumes "falsy (GOOGLE_SHEETS_ID e) \<or> falsy (GOOGLE_SHEETS_CLIENT_EMAIL e)
             \<or> falsy (GOOGLE_SHEETS_PRIVATE_KEY e)"
  shows "(\<exists>body. fst (POST e w request) = Json 500 body)
     \<and> filter external_call (snd (POST e w request)) = []"
  using assms
  by (auto simp: POST_def POST_try_def destructure_eq split: sum.splits)

theorem missing_sheets_env_is_500_witness:
  "falsy (GOOGLE_SHEETS_ID (sheets_env\<lparr>GOOGLE_SHEETS_ID := None\<rparr>))
   \<and> fst (POST (sheets_env\<lparr>GOOGLE_SHEETS_ID := None\<rparr>) sheets_up \<lparr>json_body = Inr lead_body\<rparr>) =
       Json 500 [(''message'', ''Internal server error''),
                 (''error'', ''Missing required environment variables''),
                 (''type'', ''Error'')]
   \<and> filter external_call
        (snd (POST (sheets_env\<lparr>GOOGLE_SHEETS_ID := None\<rparr>) sheets_up \<lparr>json_body = Inr lead_body\<rparr>)) = []"
  using missing_sheets_env_is_500 [of "sheets_env\<lparr>GOOGLE_SHEETS_ID := None\<rparr>" sheets_up
      "\<lparr>json_body = Inr lead_body\<rparr>"]
  by (simp add: POST_def POST_try_def destructure_eq sheets_env_def lead_body_def falsy_def)

text \<open>
  C10, as stated, fails: the body \<^verbatim>\<open>null\<close> parses, and with the configuration present
  and every call answered the handler returns 500 and appends nothing, where the empty
  object is accepted and its four undefined fields are appended.
\<close>

theorem null_body_is_rejected:
  "fst (POST sheets_env sheets_up \<lparr>json_body = Inr JNull\<rparr>) =
     Json 500 [(''message'', ''Internal server error''),
               (''error'', ''Cannot destructure property of null''),
               (''type'', ''TypeError'')]
   \<and> appended_rows (snd (POST sheets_env sheets_up \<lparr>json_body = Inr JNull\<rparr>)) = []
   \<and> fst (POST sheets_env sheets_up \<lparr>json_body = Inr (JObj [])\<rparr>) =
       Json 200 [(''message'', ''Success'')]
   \<and> appended_rows (snd (POST sheets_env sheets_up \<lparr>json_body = Inr (JObj [])\<rparr>)) =
       [[Undefined, Undefined, Undefined, Undefined, Val (JStr ''03/11/2026'')]]"
  by (simp add: POST_def POST_try_def destructure_eq sheets_env_def sheets_up_def
      falsy_def interp_def get_prop_def formattedDate_def String_int_def String_nat_1
      String_nat_2 String_nat_4 padStart_def digit_def Let_def)

text \<open>
  C10, amended. For every body that parses to a value other than \<^verbatim>\<open>null\<close>, with the
  configuration present and the three calls before the append answered, the handler
  makes the append call whatever the four fields are, with the row holding them
  unchanged (\<^verbatim>\<open>undefined\<close> for a field the body does not have) followed by the date;
  the response is the success result when that call is answered and the 500 response
  carrying its error when it throws.
\<close>

theorem fields_are_not_validated:
  assumes "json_body request = Inr b" "b \<noteq> JNull"
    and "\<not> falsy (GOOGLE_SHEETS_ID e)" "\<not> falsy (GOOGLE_SHEETS_CLIENT_EMAIL e)"
        "\<not> falsy (GOOGLE_SHEETS_PRIVATE_KEY e)"
    and "googleAuth_new w (service_account e) = None" "google_sheets w = None"
        "spreadsheets_get w (interp (GOOGLE_SHEETS_ID e)) = None"
  shows "\<exists>p. ValuesAppend p \<in> set (snd (POST e w request))
     \<and> values_rows p =
         [[get_prop b ''name'', get_prop b ''email'', get_prop b ''phone'', get_prop b ''plan'',
           Val (JStr (formattedDate (current_date w)))]]
     \<and> appended_rows (snd (POST e w request)) = values_rows p
     \<and> fst (POST e w request) =
         (case values_append w p of
            Inr st \<Rightarrow> Json 200 [(''message'', ''Success'')]
          | Inl err \<Rightarrow> Json 500 [(''message'', ''Internal server error''),
                                (''error'', err_message err), (''type'', err_name err)])"
proof -
  let ?p = "\<lparr>spreadsheetId = interp (GOOGLE_SHEETS_ID e), range_a1 = ''A:E'',
             valueInputOption = ''USER_ENTERED'',
             values_rows = [[get_prop b ''name'', get_prop b ''email'', get_prop b ''phone'',
                             get_prop b ''plan'', Val (JStr (formattedDate (current_date w)))]]\<rparr>"
  have a: "ValuesAppend ?p \<in> set (snd (POST_try e w request))"
    using assms by (rule POST_try_reaches_append)
  from POST_try_append [OF a]
  have rows: "appended_rows (snd (POST_try e w request)) = values_rows ?p"
    and resp: "fst (POST_try e w request) =
          (case values_append w ?p of Inl err \<Rightarrow> Inl err
           | Inr st \<Rightarrow> Inr (Json 200 [(''message'', ''Success'')]))"
    by blast+
  have "ValuesAppend ?p \<in> set (snd (POST e w request))"
    using a by (simp add: POST_append_iff)
  moreover have "appended_rows (snd (POST e w request)) = values_rows ?p"
    using rows by (simp add: POST_appended_rows)
  moreover have "fst (POST e w request) =
         (case values_append w ?p of
            Inr st \<Rightarrow> Json 200 [(''message'', ''Success'')]
          | Inl err \<Rightarrow> Json 500 [(''message'', ''Internal server error''),
                                (''error'', err_message err), (''type'', err_name err)])"
    using resp by (simp add: POST_response split: sum.splits)
  ultimately show ?thesis
    by (intro exI [of _ ?p]) simp
qed

theorem fields_are_not_validated_witness:
  "\<exists>p. ValuesAppend p \<in> set (snd (POST sheets_env sheets_up \<lparr>json_body = Inr lead_body\<rparr>))
     \<and> values_rows p =
         [[Val (JStr ''Ana''), Val (JStr []), Undefined, Val (JNum 7), Val (JStr ''03/11/2026'')]]
     \<and> appended_rows (snd (POST sheets_env sheets_up \<lparr>json_body = Inr lead_body\<rparr>)) = values_rows p
     \<and> fst (POST sheets_env sheets_up \<lparr>json_body = Inr lead_body\<rparr>) =
         Json 200 [(''message'', ''Success'')]"
  using fields_are_not_validated [of "\<lparr>json_body = Inr lead_body\<rparr>" lead_body sheets_env sheets_up]
  by (simp add: sheets_env_def sheets_up_def lead_body_def falsy_def get_prop_def
      formattedDate_def String_int_def String_nat_1 String_nat_2 String_nat_4 padStart_def
      digit_def)

section \<open>Lemmas on the verification handler\<close>

lemma events_emit [simp]: "events (emit ev s) = events s @ [ev]"
  by (simp add: emit_def)

lemma users_emit [simp]: "users (emit ev s) = users s"
  by (simp add: emit_def)

lemma grows_by_trans: "grows_by P s s1 \<Longrightarrow> grows_by P s1 s2 \<Longrightarrow> grows_by P s s2"
  by (auto simp: grows_by_def)

lemma grows_by_emit: "P ev \<Longrightarrow> grows_by P s (emit ev s)"
  by (simp add: grows_by_def)

lemma grows_by_emit_after: "grows_by P s s1 \<Longrightarrow> P ev \<Longrightarrow> grows_by P s (emit ev s1)"
  by (auto simp: grows_by_def)

lemma grows_by_mono: "grows_by P s s' \<Longrightarrow> (\<And>ev. P ev \<Longrightarrow> Q ev) \<Longrightarrow> grows_by Q s s'"
  by (auto simp: grows_by_def list_all_iff)

lemma grows_by_mem:
  "grows_by P s s' \<Longrightarrow> ev \<in> set (events s') \<Longrightarrow> ev \<in> set (events s) \<or> P ev"
  by (auto simp: grows_by_def list_all_iff)

lemma redirect_cases:
  "redirect w u = Inr r \<Longrightarrow> r = Redirect u \<and> url_parses w u"
  by (simp add: redirect_def split: if_splits)

lemma redirect_ok: "url_parses w u \<Longrightarrow> redirect w u = Inr (Redirect u)"
  by (simp add: redirect_def)

text \<open>The events each stage adds.\<close>

lemma save_grows: "save w k tenant i u s = (r, s') \<Longrightarrow> grows_by database_event s s'"
  by (auto simp: save_def Let_def grows_by_def split: option.splits prod.splits)

lemma update_last_login_grows:
  "update_last_login w k t tenant i u s = (r, s') \<Longrightarrow> grows_by database_event s s'"
  by (auto simp: update_last_login_def split: prod.splits sum.splits dest: save_grows)

lemma find_or_create_user_grows:
  assumes "find_or_create_user w tenant decoded s = (r, s')"
  shows "grows_by database_event s s'"
proof -
  have g1: "grows_by database_event s (emit (FindOne (decoded_email decoded)) s)"
    by (simp add: grows_by_emit)
  show ?thesis
    using assms unfolding find_or_create_user_def Let_def
    by (auto split: option.splits prod.splits sum.splits if_splits
        dest!: save_grows update_last_login_grows intro: g1 grows_by_trans [OF g1]
          grows_by_trans [OF grows_by_trans [OF g1]])
qed


lemma database_stage_event: "database_event ev \<Longrightarrow> stage_event e ev"
  by (cases ev) simp_all

lemma create_session_grows:
  assumes "create_session e w tenantUrl decoded i user s = (r, s')"
  shows "grows_by (stage_event e) s s'"
  using assms unfolding create_session_def Let_def
  by (auto simp: grows_by_def split: sum.splits option.splits)

lemma GET_verified_grows:
  assumes "GET_verified e w decoded tenant s = (r, s')"
  shows "grows_by (stage_event e) (emit (ConnectDB tenant) s) s'"
proof -
  let ?c = "emit (ConnectDB tenant) s"
  have m: "grows_by (stage_event e) ?c (emit (GetTenantModel ''User'') ?c)"
    by (simp add: grows_by_emit)
  have u: "\<And>r3 s3. find_or_create_user w tenant decoded (emit (GetTenantModel ''User'') ?c) = (r3, s3)
      \<Longrightarrow> grows_by (stage_event e) ?c s3"
    by (blast intro: grows_by_trans [OF m] grows_by_mono database_stage_event
        dest: find_or_create_user_grows)
  have l: "\<And>r3 s3 r4 s4. find_or_create_user w tenant decoded
        (emit (GetTenantModel ''User'') ?c) = (r3, s3)
      \<Longrightarrow> create_session e w (EXTERNAL_APP_URL @ ''/'' @ tenant @ ''/financeiro'') decoded i user
            (emit (ConsoleLog ''User login:'') s3) = (r4, s4)
      \<Longrightarrow> grows_by (stage_event e) ?c s4" for i user
    by (blast intro: grows_by_trans grows_by_emit_after [OF u] dest: create_session_grows
        intro: stage_event.simps(3) [THEN iffD2])
  show ?thesis
    using assms unfolding GET_verified_def Let_def
    by (auto split: option.splits prod.splits sum.splits
        intro: m u l grows_by_emit grows_by_emit_after [OF u] grows_by_emit_after [OF l])
qed

text \<open>The two ways through lines 83 to 121.\<close>

lemma GET_try_rejected:
  assumes "\<not> verification_passed e w request"
  shows "\<exists>r s'. GET_try e w request s = (r, s') \<and> users s' = users s
     \<and> grows_by (check_event e) s s'
     \<and> (r = redirect w (interp (NEXT_PUBLIC_APP_URL e) @ ''/?error=invalid-token'')
        \<or> r = redirect w (interp (NEXT_PUBLIC_APP_URL e) @ ''/?error=invalid-tenant''))"
  using assms
  unfolding GET_try_def verification_passed_def resolved_tenant_def Let_def
  by (auto simp: grows_by_def split: sum.splits if_splits)

lemma verification_passed_decoded:
  assumes "verification_passed e w request"
  shows "\<exists>decoded. jwt_verify w (interp (token_param request)) (EMAIL_SECRET e) = Inr decoded"
  using assms by (auto simp: verification_passed_def split: sum.splits)

lemma GET_try_accepted:
  assumes "verification_passed e w request"
    and "jwt_verify w (interp (token_param request)) (EMAIL_SECRET e) = Inr decoded"
  shows "GET_try e w request s =
      GET_verified e w decoded (interp (decoded_tenant decoded))
        (if falsy (tenant_param request)
         then emit (ConsoleLog ''Retrieved tenant from token:'')
                (emit (JwtVerify (interp (token_param request)) (EMAIL_SECRET e)) s)
         else emit (JwtVerify (interp (token_param request)) (EMAIL_SECRET e)) s)"
  using assms
  unfolding GET_try_def verification_passed_def resolved_tenant_def Let_def
  by (auto split: sum.splits if_splits)

lemma GET_unfold:
  "GET e w request db =
     (case GET_try e w request (initial db) of
        (Inr r, s) \<Rightarrow> (Returns r, s)
      | (Inl err, s) \<Rightarrow>
          (case redirect w (interp (NEXT_PUBLIC_APP_URL e) @ ''/?error=server-error'') of
             Inr r \<Rightarrow> (Returns r, emit (ConsoleError ''Verification error:'') s)
           | Inl err2 \<Rightarrow> (Throws err2, emit (ConsoleError ''Verification error:'') s)))"
  by (simp add: GET_def initial_def)

lemma GET_state:
  assumes "GET_try e w request (initial db) = (r, s)"
  shows "users (snd (GET e w request db)) = users s"
    and "events (snd (GET e w request db)) =
      events s @ (case r of Inr x \<Rightarrow> [] | Inl err \<Rightarrow> [ConsoleError ''Verification error:''])"
  using assms by (auto simp: GET_unfold split: sum.splits)

lemma GET_outcome:
  assumes "GET_try e w request (initial db) = (r, s)"
  shows "fst (GET e w request db) =
     (case r of
        Inr x \<Rightarrow> Returns x
      | Inl err \<Rightarrow>
          (case redirect w (interp (NEXT_PUBLIC_APP_URL e) @ ''/?error=server-error'') of
             Inr x \<Rightarrow> Returns x | Inl err2 \<Rightarrow> Throws err2))"
  using assms by (auto simp: GET_unfold split: sum.splits)

text \<open>The pages of the handler are told apart by their last character.\<close>

lemma last_landing [simp]: "last (landing t) = CHR ''o''"
  by (simp add: landing_def)

lemma last_landing_error [simp]:
  "last (landing t @ ''/?error=database-error'') = CHR ''r''"
  "last (landing t @ ''/?error=user-error'') = CHR ''r''"
  "last (landing t @ ''/?error=session-error'') = CHR ''r''"
  by simp_all

lemma last_base_page [simp]:
  "last (b @ ''/?error=invalid-token'') = CHR ''n''"
  "last (b @ ''/?error=invalid-tenant'') = CHR ''t''"
  "last (b @ ''/?error=server-error'') = CHR ''r''"
  by simp_all

lemma landing_inject [simp]: "landing t = landing t' \<longleftrightarrow> t = t'"
  by (simp add: landing_def)

text \<open>What the stages after the checks answer.\<close>

lemma create_session_response:
  assumes "create_session e w tenantUrl decoded i user s = (Inr r, s')"
  shows "r = Redirect tenantUrl \<and> users s' = users s"
  using assms unfolding create_session_def Let_def
  by (auto split: sum.splits option.splits dest: redirect_cases)

lemma GET_verified_response:
  assumes "GET_verified e w decoded t s = (Inr r, s')"
  shows "r = Redirect (landing t @ ''/?error=database-error'')
     \<or> r = Redirect (landing t @ ''/?error=user-error'')
     \<or> r = Redirect (landing t @ ''/?error=session-error'')
     \<or> r = Redirect (landing t)
        \<and> (\<exists>i u s3. find_or_create_user w t decoded
                (emit (GetTenantModel ''User'') (emit (ConnectDB t) s)) = (Inr (i, u), s3)
              \<and> users s' = users s3)"
  using assms unfolding GET_verified_def Let_def landing_def
  by (auto split: option.splits prod.splits sum.splits
      dest!: redirect_cases create_session_response)

lemma GET_try_response:
  assumes "GET_try e w request s = (Inr r, s')"
  shows "\<exists>u. r = Redirect u"
proof (cases "verification_passed e w request")
  case False
  from GET_try_rejected [OF False, of s] assms show ?thesis
    by (auto dest: redirect_cases sym)
next
  case True
  from verification_passed_decoded [OF True] obtain decoded
    where "jwt_verify w (interp (token_param request)) (EMAIL_SECRET e) = Inr decoded" ..
  from GET_try_accepted [OF True this, of s] assms
  have "\<exists>s2. GET_verified e w decoded (interp (decoded_tenant decoded)) s2 = (Inr r, s')"
    by auto
  then show ?thesis by (auto dest!: GET_verified_response)
qed







text \<open>A request that passes the checks runs lines 123 to 209 from a state with the old collections.\<close>

lemma GET_accepted:
  assumes "verification_passed e w request"
    and "jwt_verify w (interp (token_param request)) (EMAIL_SECRET e) = Inr decoded"
  shows "\<exists>r s s2. GET_try e w request (initial db) = (r, s)
     \<and> GET_verified e w decoded (interp (decoded_tenant decoded)) s2 = (r, s)
     \<and> users s2 = db
     \<and> events s2 = JwtVerify (interp (token_param request)) (EMAIL_SECRET e)
          # (if falsy (tenant_param request) then [ConsoleLog ''Retrieved tenant from token:'']
             else [])"
proof -
  obtain r s where rs: "GET_try e w request (initial db) = (r, s)"
    by (cases "GET_try e w request (initial db)")
  let ?s1 = "emit (JwtVerify (interp (token_param request)) (EMAIL_SECRET e)) (initial db)"
  let ?s2 = "if falsy (tenant_param request)
         then emit (ConsoleLog ''Retrieved tenant from token:'') ?s1 else ?s1"
  from GET_try_accepted [OF assms, of "initial db"] rs
  have "GET_verified e w decoded (interp (decoded_tenant decoded)) ?s2 = (r, s)"
    by simp
  moreover have "users ?s2 = db"
    by (simp add: initial_def)
  moreover have "events ?s2 = JwtVerify (interp (token_param request)) (EMAIL_SECRET e)
          # (if falsy (tenant_param request) then [ConsoleLog ''Retrieved tenant from token:'']
             else [])"
    by (simp add: initial_def)
  ultimately show ?thesis using rs by blast
qed

lemma GET_rejected:
  assumes "\<not> verification_passed e w request"
  shows "\<exists>r s. GET_try e w request (initial db) = (r, s) \<and> users s = db
     \<and> list_all (check_event e) (events s)
     \<and> (r = redirect w (interp (NEXT_PUBLIC_APP_URL e) @ ''/?error=invalid-token'')
        \<or> r = redirect w (interp (NEXT_PUBLIC_APP_URL e) @ ''/?error=invalid-tenant''))"
  using GET_try_rejected [OF assms, of "initial db"]
  by (auto simp: initial_def grows_by_def)

lemma stage_event_not_check: "stage_event e ev \<Longrightarrow> \<not> tenant_rejection ev"
  by (cases ev) auto

text \<open>Every call of a request is one of the checks or one of the later stages.\<close>

lemma GET_events:
  assumes "ev \<in> set (events (snd (GET e w request db)))"
  shows "check_event e ev \<or> stage_event e ev"
proof (cases "verification_passed e w request")
  case False
  from GET_rejected [OF False, of db] obtain r s
    where rs: "GET_try e w request (initial db) = (r, s)"
      and c: "list_all (check_event e) (events s)"
    by blast
  from GET_state(2) [OF rs] assms c show ?thesis
    by (auto simp: list_all_iff split: sum.splits)
next
  case True
  from verification_passed_decoded [OF True] obtain decoded
    where d: "jwt_verify w (interp (token_param request)) (EMAIL_SECRET e) = Inr decoded" ..
  from GET_accepted [OF True d, of db] obtain r s s2
    where rs: "GET_try e w request (initial db) = (r, s)"
      and v: "GET_verified e w decoded (interp (decoded_tenant decoded)) s2 = (r, s)"
      and ev2: "events s2 = JwtVerify (interp (token_param request)) (EMAIL_SECRET e)
          # (if falsy (tenant_param request) then [ConsoleLog ''Retrieved tenant from token:'']
             else [])"
    by blast
  from GET_state(2) [OF rs] assms
  have "ev \<in> set (events s) \<or> ev = ConsoleError ''Verification error:''"
    by (auto split: sum.splits)
  then show ?thesis
  proof
    assume "ev \<in> set (events s)"
    from grows_by_mem [OF GET_verified_grows [OF v] this] ev2
    show ?thesis by (auto split: if_splits)
  next
    assume "ev = ConsoleError ''Verification error:''"
    then show ?thesis by simp
  qed
qed

text \<open>What a request that passes the checks can answer.\<close>

lemma GET_accepted_outcome:
  assumes "verification_passed e w request"
    and "jwt_verify w (interp (token_param request)) (EMAIL_SECRET e) = Inr decoded"
    and "fst (GET e w request db) = Returns (Redirect u)"
  shows "u = interp (NEXT_PUBLIC_APP_URL e) @ ''/?error=server-error''
     \<or> u = landing (interp (decoded_tenant decoded)) @ ''/?error=database-error''
     \<or> u = landing (interp (decoded_tenant decoded)) @ ''/?error=user-error''
     \<or> u = landing (interp (decoded_tenant decoded)) @ ''/?error=session-error''
     \<or> u = landing (interp (decoded_tenant decoded))"
proof -
  from GET_accepted [OF assms(1,2), of db] obtain r s s2
    where rs: "GET_try e w request (initial db) = (r, s)"
      and v: "GET_verified e w decoded (interp (decoded_tenant decoded)) s2 = (r, s)"
    by blast
  show ?thesis
  proof (cases r)
    case (Inl err)
    with GET_outcome [OF rs] assms(3) show ?thesis
      by (auto split: sum.splits dest: redirect_cases)
  next
    case (Inr x)
    with GET_outcome [OF rs] assms(3) have "x = Redirect u" by simp
    with GET_verified_response [of e w decoded "interp (decoded_tenant decoded)" s2 x s] v Inr
    show ?thesis by auto
  qed
qed


text \<open>Two runs of the handler on concrete inputs: a first and a second verification.\<close>

lemmas concrete_defs =
  verify_env_def verify_up_def verify_world_of_def bare_env_def no_users_def acme_request_def
  token_of_def sign_with_def has_scheme_def first_login_def

lemmas handler_defs =
  GET_def GET_try_def GET_verified_def find_or_create_user_def update_last_login_def save_def
  persist_def create_session_def redirect_def emit_def falsy_def interp_def EMAIL_SECRET_def
  JWT_SECRET_def EXTERNAL_APP_URL_def Let_def

lemma run_new_user:
  "GET verify_env verify_up acme_request no_users =
     (Returns (Redirect ''https://app.liveplus.pro/acme/financeiro''),
      \<lparr>events =
         [JwtVerify ''tok-acme'' ''email-key'',
          ConsoleLog ''Retrieved tenant from token:'',
          ConnectDB ''acme'', GetTenantModel ''User'', FindOne (Some ''a@x.com''),
          Save 0 \<lparr>email = Some ''a@x.com'', tenantPath = Some ''acme'', role = ''member'',
                  createdAt = Some 1000, lastLoginAt = Some 1001\<rparr>,
          Save 0 first_login,
          ConsoleLog ''User login:'',
          SignJWT (SessionPayload (Some ''a@x.com'') ''0'' (Some ''acme'') ''owner'' True
                     ''https://app.liveplus.pro'') ''HS256'' ''7d'' ''session-key'',
          Cookies,
          CookieSet ''auth_token'' ''session-1''
            \<lparr>httpOnly = True, secure = True, sameSite = ''none'', maxAge = 604800,
             cookie_path = ''/'', cookie_domain = ''.liveplus.pro''\<rparr>,
          ConsoleLog ''Redirecting to:''],
       users = no_users(''acme'' := [first_login])\<rparr>)"
  by (simp add: handler_defs concrete_defs String_nat_1 digit_def)



section \<open>Claims on the verification handler\<close>

text \<open>
  C1. Whenever a request makes a session call (signing the session token, reaching the
  cookie store, setting the cookie) or a database call (connecting, looking a user up,
  saving one), or changes a user collection, the email token was verified and the
  resolved tenant equals the token's tenant; and the token verification is the first
  call of the request, so every session and database call comes after it.
\<close>

theorem session_and_users_only_after_verification:
  assumes "(\<exists>ev \<in> set (events (snd (GET e w request db))). session_event ev \<or> database_event ev)
             \<or> users (snd (GET e w request db)) \<noteq> db"
  shows "verification_passed e w request
     \<and> (\<exists>rest. events (snd (GET e w request db)) =
            JwtVerify (interp (token_param request)) (EMAIL_SECRET e) # rest)"
proof -
  obtain r s where rs: "GET_try e w request (initial db) = (r, s)"
    by (cases "GET_try e w request (initial db)")
  note st = GET_state [OF rs]
  have passed: "verification_passed e w request"
  proof (rule ccontr)
    assume "\<not> verification_passed e w request"
    from GET_try_rejected [OF this, of "initial db"] rs
    have u: "users s = users (initial db)" and g: "grows_by (check_event e) (initial db) s"
      by auto
    have "ev \<in> set (events (snd (GET e w request db))) \<Longrightarrow> check_event e ev" for ev
      using grows_by_mem [OF g, of ev] st(2) by (auto simp: initial_def split: sum.splits)
    moreover have "check_event e ev \<Longrightarrow> \<not> session_event ev \<and> \<not> database_event ev" for ev
      by (cases ev) simp_all
    moreover have "users (snd (GET e w request db)) = db"
      using u st(1) by (simp add: initial_def)
    ultimately show False using assms by blast
  qed
  from verification_passed_decoded [OF passed] obtain decoded
    where d: "jwt_verify w (interp (token_param request)) (EMAIL_SECRET e) = Inr decoded" ..
  from GET_try_accepted [OF passed d, of "initial db"] rs
  have "\<exists>s2. GET_verified e w decoded (interp (decoded_tenant decoded)) s2 = (r, s)
      \<and> (\<exists>more. events s2 = JwtVerify (interp (token_param request)) (EMAIL_SECRET e) # more)"
    by (auto simp: initial_def)
  then obtain s2 more where v: "GET_verified e w decoded (interp (decoded_tenant decoded)) s2 = (r, s)"
    and h: "events s2 = JwtVerify (interp (token_param request)) (EMAIL_SECRET e) # more"
    by blast
  from GET_verified_grows [OF v] h
  have "\<exists>rest. events s = JwtVerify (interp (token_param request)) (EMAIL_SECRET e) # rest"
    by (auto simp: grows_by_def)
  with st(2) have "\<exists>rest. events (snd (GET e w request db)) =
            JwtVerify (interp (token_param request)) (EMAIL_SECRET e) # rest"
    by auto
  with passed show ?thesis ..
qed

theorem session_and_users_only_after_verification_witness:
  "SignJWT (SessionPayload (Some ''a@x.com'') ''0'' (Some ''acme'') ''owner'' True
              ''https://app.liveplus.pro'') ''HS256'' ''7d'' ''session-key''
     \<in> set (events (snd (GET verify_env verify_up acme_request no_users)))
   \<and> verification_passed verify_env verify_up acme_request
   \<and> (\<exists>rest. events (snd (GET verify_env verify_up acme_request no_users)) =
          JwtVerify ''tok-acme'' ''email-key'' # rest)"
proof -
  let ?ev = "SignJWT (SessionPayload (Some ''a@x.com'') ''0'' (Some ''acme'') ''owner'' True
              ''https://app.liveplus.pro'') ''HS256'' ''7d'' ''session-key''"
  have m: "?ev \<in> set (events (snd (GET verify_env verify_up acme_request no_users)))"
    by (simp add: run_new_user)
  then have "(\<exists>ev \<in> set (events (snd (GET verify_env verify_up acme_request no_users))).
                session_event ev \<or> database_event ev)
             \<or> users (snd (GET verify_env verify_up acme_request no_users)) \<noteq> no_users"
    by (intro disjI1 bexI [of _ ?ev]) simp_all
  from session_and_users_only_after_verification [OF this] m
  show ?thesis
    by (simp add: acme_request_def verify_env_def EMAIL_SECRET_def falsy_def interp_def)
qed

text \<open>
  C2, as stated, fails: with \<^verbatim>\<open>NEXT_PUBLIC_APP_URL\<close> unset, a request whose accepted token is
  for tenant \<^verbatim>\<open>acme\<close> and whose tenant parameter is \<^verbatim>\<open>other\<close> makes line 120 throw on the
  URL \<^verbatim>\<open>undefined/?error=invalid-tenant\<close> and the outer \<^verbatim>\<open>catch\<close> throw in turn; the
  handler does not redirect.
\<close>

theorem tenant_mismatch_throws_when_base_url_unset:
  "fst (GET (verify_env\<lparr>NEXT_PUBLIC_APP_URL := None\<rparr>) verify_up
          \<lparr>token_param = Some ''tok-acme'', tenant_param = Some ''other''\<rparr> no_users) =
     Throws (JsError ''TypeError'' ''Invalid URL'')"
  by (simp add: handler_defs concrete_defs)

text \<open>
  C2, amended. When the token is accepted and the resolved tenant differs from the
  tenant in the token (or there is no resolved tenant at all, where JavaScript's
  \<^verbatim>\<open>null\<close> differs from the token's \<^verbatim>\<open>undefined\<close>), the handler makes no database call (no
  connection, no lookup, no save) and leaves every user collection as it was; and when
  the invalid-tenant page of the base URL is a URL that parses, the handler redirects to
  that page.
\<close>

theorem tenant_mismatch_redirects_without_database:
  assumes "\<not> falsy (token_param request)"
    and "jwt_verify w (interp (token_param request)) (EMAIL_SECRET e) = Inr decoded"
    and "falsy (resolved_tenant request decoded)
           \<or> resolved_tenant request decoded \<noteq> decoded_tenant decoded"
  shows "filter database_event (events (snd (GET e w request db))) = []
     \<and> users (snd (GET e w request db)) = db
     \<and> (url_parses w (interp (NEXT_PUBLIC_APP_URL e) @ ''/?error=invalid-tenant'') \<longrightarrow>
          fst (GET e w request db) =
            Returns (Redirect (interp (NEXT_PUBLIC_APP_URL e) @ ''/?error=invalid-tenant'')))"
  using assms
  unfolding GET_def GET_try_def resolved_tenant_def Let_def
  by (auto simp: redirect_def split: if_splits)

theorem tenant_mismatch_redirects_without_database_witness:
  "resolved_tenant \<lparr>token_param = Some ''tok-acme'', tenant_param = Some ''other''\<rparr>
       \<lparr>decoded_email = Some ''a@x.com'', decoded_tenant = Some ''acme''\<rparr> = Some ''other''
   \<and> url_parses verify_up ''https://lp.example/?error=invalid-tenant''
   \<and> fst (GET verify_env verify_up \<lparr>token_param = Some ''tok-acme'', tenant_param = Some ''other''\<rparr>
            no_users) = Returns (Redirect ''https://lp.example/?error=invalid-tenant'')
   \<and> filter database_event
        (events (snd (GET verify_env verify_up
           \<lparr>token_param = Some ''tok-acme'', tenant_param = Some ''other''\<rparr> no_users))) = []
   \<and> users (snd (GET verify_env verify_up
        \<lparr>token_param = Some ''tok-acme'', tenant_param = Some ''other''\<rparr> no_users)) = no_users"
  using tenant_mismatch_redirects_without_database
    [of "\<lparr>token_param = Some ''tok-acme'', tenant_param = Some ''other''\<rparr>" verify_up verify_env
       "\<lparr>decoded_email = Some ''a@x.com'', decoded_tenant = Some ''acme''\<rparr>" no_users]
  by (simp add: resolved_tenant_def falsy_def interp_def verify_env_def verify_up_def
      verify_world_of_def token_of_def EMAIL_SECRET_def has_scheme_def)

text \<open>
  C3, as stated, fails: with \<^verbatim>\<open>NEXT_PUBLIC_APP_URL\<close> unset, a request whose token the token
  library refuses makes line 102 throw on the URL \<^verbatim>\<open>undefined/?error=invalid-token\<close> and the
  outer \<^verbatim>\<open>catch\<close> throw in turn; the handler does not redirect.
\<close>

theorem bad_token_throws_when_base_url_unset:
  "fst (GET (verify_env\<lparr>NEXT_PUBLIC_APP_URL := None\<rparr>) verify_up
          \<lparr>token_param = Some ''expired'', tenant_param = Some ''acme''\<rparr> no_users) =
     Throws (JsError ''TypeError'' ''Invalid URL'')"
  by (simp add: handler_defs concrete_defs)

text \<open>
  C3, amended. When the invalid-token page of the base URL is a URL that parses, a
  request with no token (or an empty one), or with a token that the token library
  refuses (malformed, badly signed or expired), is redirected to that page, whatever its
  tenant parameter is.
\<close>

theorem bad_token_redirects_to_invalid_token:
  assumes "falsy (token_param request)
             \<or> (\<exists>err. jwt_verify w (interp (token_param request)) (EMAIL_SECRET e) = Inl err)"
    and "url_parses w (interp (NEXT_PUBLIC_APP_URL e) @ ''/?error=invalid-token'')"
  shows "fst (GET e w request db) =
           Returns (Redirect (interp (NEXT_PUBLIC_APP_URL e) @ ''/?error=invalid-token''))"
  using assms
  unfolding GET_def GET_try_def Let_def
  by (auto simp: redirect_ok)

theorem bad_token_redirects_to_invalid_token_witness:
  "fst (GET verify_env verify_up \<lparr>token_param = None, tenant_param = Some ''acme''\<rparr> no_users) =
     Returns (Redirect ''https://lp.example/?error=invalid-token'')
   \<and> fst (GET verify_env verify_up \<lparr>token_param = Some ''expired'', tenant_param = None\<rparr> no_users) =
     Returns (Redirect ''https://lp.example/?error=invalid-token'')"
  using bad_token_redirects_to_invalid_token
      [of "\<lparr>token_param = None, tenant_param = Some ''acme''\<rparr>" verify_up verify_env no_users]
    bad_token_redirects_to_invalid_token
      [of "\<lparr>token_param = Some ''expired'', tenant_param = None\<rparr>" verify_up verify_env no_users]
  by (simp add: falsy_def interp_def verify_env_def verify_up_def verify_world_of_def
      token_of_def EMAIL_SECRET_def has_scheme_def)



text \<open>
  C7, as stated, fails: with \<^verbatim>\<open>NEXT_PUBLIC_APP_URL\<close> unset, a request without a token makes
  line 93 throw on the URL \<^verbatim>\<open>undefined/?error=invalid-token\<close>, the outer \<^verbatim>\<open>catch\<close> throws on
  \<^verbatim>\<open>undefined/?error=server-error\<close> in turn, and the exception leaves the handler.
\<close>

theorem uncaught_when_base_url_unset:
  "fst (GET bare_env verify_up \<lparr>token_param = None, tenant_param = None\<rparr> no_users) =
     Throws (JsError ''TypeError'' ''Invalid URL'')"
  by (simp add: handler_defs concrete_defs)

text \<open>
  C7, amended. When the server-error page of the base URL is a URL that parses, the
  handler answers every request with a redirect, and an exception that reaches the outer
  \<^verbatim>\<open>catch\<close> is answered with the redirect to that page.
\<close>

theorem every_failure_redirects:
  assumes "url_parses w (interp (NEXT_PUBLIC_APP_URL e) @ ''/?error=server-error'')"
  shows "(\<exists>u. fst (GET e w request db) = Returns (Redirect u))
     \<and> (\<forall>err. fst (GET_try e w request (initial db)) = Inl err \<longrightarrow>
          fst (GET e w request db) =
            Returns (Redirect (interp (NEXT_PUBLIC_APP_URL e) @ ''/?error=server-error'')))"
proof -
  obtain r s where rs: "GET_try e w request (initial db) = (r, s)"
    by (cases "GET_try e w request (initial db)")
  show ?thesis
  proof (cases r)
    case (Inl err)
    with GET_outcome [OF rs] rs assms show ?thesis
      by (simp add: redirect_ok)
  next
    case (Inr x)
    with GET_try_response [of e w request "initial db" x s] rs obtain u where "x = Redirect u"
      by auto
    with GET_outcome [OF rs] rs Inr show ?thesis
      by simp
  qed
qed

theorem every_failure_redirects_witness:
  "fst (GET_try verify_env (verify_up\<lparr>getTenantModel := Some (JsError ''MissingSchemaError'' ''User'')\<rparr>)
          acme_request (initial no_users)) = Inl (JsError ''MissingSchemaError'' ''User'')
   \<and> fst (GET verify_env (verify_up\<lparr>getTenantModel := Some (JsError ''MissingSchemaError'' ''User'')\<rparr>)
          acme_request no_users) = Returns (Redirect ''https://lp.example/?error=server-error'')"
proof -
  let ?w = "verify_up\<lparr>getTenantModel := Some (JsError ''MissingSchemaError'' ''User'')\<rparr>"
  have p: "url_parses ?w (interp (NEXT_PUBLIC_APP_URL verify_env) @ ''/?error=server-error'')"
    by (simp add: concrete_defs interp_def)
  have t: "fst (GET_try verify_env ?w acme_request (initial no_users)) =
      Inl (JsError ''MissingSchemaError'' ''User'')"
    by (simp add: handler_defs concrete_defs initial_def)
  from every_failure_redirects [OF p, of acme_request no_users] t
  show ?thesis
    by (simp add: verify_env_def interp_def)
qed

text \<open>
  C8, as stated, fails: with \<^verbatim>\<open>EMAIL_SECRET\<close>, \<^verbatim>\<open>JWT_SECRET\<close> and every other variable unset,
  a token signed under the literal \<^verbatim>\<open>your-secret-key\<close> is accepted, the session is signed
  under the literal \<^verbatim>\<open>your-jwt-secret\<close>, and the browser is sent to the domain written in
  the source.
\<close>

theorem built_in_secrets_and_domain_operate:
  "fst (GET bare_env (verify_world_of ''your-secret-key'' ''your-jwt-secret'') acme_request no_users)
     = Returns (Redirect ''https://app.liveplus.pro/acme/financeiro'')
   \<and> JwtVerify ''tok-acme'' ''your-secret-key''
       \<in> set (events (snd (GET bare_env (verify_world_of ''your-secret-key'' ''your-jwt-secret'')
                              acme_request no_users)))
   \<and> SignJWT (SessionPayload (Some ''a@x.com'') ''0'' (Some ''acme'') ''owner'' True
                ''https://app.liveplus.pro'') ''HS256'' ''7d'' ''your-jwt-secret''
       \<in> set (events (snd (GET bare_env (verify_world_of ''your-secret-key'' ''your-jwt-secret'')
                              acme_request no_users)))"
  by (simp add: handler_defs concrete_defs String_nat_1 digit_def)

text \<open>
  C8, amended. The email-signing secret and the session-signing secret are taken from
  the environment when the variable is set and not empty, and are the built-in literals
  \<^verbatim>\<open>your-secret-key\<close> and \<^verbatim>\<open>your-jwt-secret\<close> otherwise: every token verification of a
  request uses the first, every session signing the second. The external application
  domain is not configuration: every signed session carries
  \<^verbatim>\<open>https://app.liveplus.pro\<close>, and a request that passes the checks is redirected to a
  page under \<^verbatim>\<open>https://app.liveplus.pro/<tenant>/financeiro\<close> or to the server-error page.
\<close>

theorem secrets_fall_back_and_domain_is_fixed:
  assumes "jwt_verify w (interp (token_param request)) (EMAIL_SECRET e) = Inr decoded"
  shows "(\<forall>ev \<in> set (events (snd (GET e w request db))).
            (\<forall>t k. ev = JwtVerify t k \<longrightarrow>
               k = (case EMAIL_SECRET_var e of
                      None \<Rightarrow> ''your-secret-key''
                    | Some v \<Rightarrow> if v = [] then ''your-secret-key'' else v))
          \<and> (\<forall>p a x k. ev = SignJWT p a x k \<longrightarrow>
               k = (case JWT_SECRET_var e of
                      None \<Rightarrow> ''your-jwt-secret''
                    | Some v \<Rightarrow> if v = [] then ''your-jwt-secret'' else v)
               \<and> p_externalDomain p = ''https://app.liveplus.pro''))
     \<and> (verification_passed e w request \<longrightarrow>
          (\<forall>u. fst (GET e w request db) = Returns (Redirect u) \<longrightarrow>
             u = interp (NEXT_PUBLIC_APP_URL e) @ ''/?error=server-error''
             \<or> (\<exists>suffix. u = ''https://app.liveplus.pro/'' @ interp (decoded_tenant decoded)
                               @ ''/financeiro'' @ suffix)))"
proof -
  have keys: "EMAIL_SECRET e =
        (case EMAIL_SECRET_var e of
           None \<Rightarrow> ''your-secret-key''
         | Some v \<Rightarrow> if v = [] then ''your-secret-key'' else v)"
      "JWT_SECRET e =
        (case JWT_SECRET_var e of
           None \<Rightarrow> ''your-jwt-secret''
         | Some v \<Rightarrow> if v = [] then ''your-jwt-secret'' else v)"
    by (simp_all add: EMAIL_SECRET_def JWT_SECRET_def falsy_def interp_def split: option.splits)
  have ev: "(\<forall>t k. ev = JwtVerify t k \<longrightarrow> k = EMAIL_SECRET e)
          \<and> (\<forall>p a x k. ev = SignJWT p a x k \<longrightarrow>
               k = JWT_SECRET e \<and> p_externalDomain p = ''https://app.liveplus.pro'')"
    if "ev \<in> set (events (snd (GET e w request db)))" for ev
    using GET_events [OF that] by (cases ev) (auto simp: EXTERNAL_APP_URL_def)
  have page: "u = interp (NEXT_PUBLIC_APP_URL e) @ ''/?error=server-error''
             \<or> (\<exists>suffix. u = ''https://app.liveplus.pro/'' @ interp (decoded_tenant decoded)
                               @ ''/financeiro'' @ suffix)"
    if "verification_passed e w request" "fst (GET e w request db) = Returns (Redirect u)" for u
    using GET_accepted_outcome [OF that(1) assms that(2)]
    by (auto simp: landing_def EXTERNAL_APP_URL_def)
  from ev page show ?thesis
    unfolding keys [symmetric] by blast
qed

theorem secrets_fall_back_and_domain_is_fixed_witness:
  "JwtVerify ''tok-acme'' ''email-key'' \<in> set (events (snd (GET verify_env verify_up acme_request no_users)))
   \<and> EMAIL_SECRET_var verify_env = Some ''email-key''
   \<and> verification_passed verify_env verify_up acme_request
   \<and> fst (GET verify_env verify_up acme_request no_users)
       = Returns (Redirect (''https://app.liveplus.pro/'' @ ''acme'' @ ''/financeiro'' @ []))"
proof -
  let ?d = "\<lparr>decoded_email = Some ''a@x.com'', decoded_tenant = Some ''acme''\<rparr>"
  have v: "jwt_verify verify_up (interp (token_param acme_request)) (EMAIL_SECRET verify_env)
      = Inr ?d"
    by (simp add: concrete_defs interp_def EMAIL_SECRET_def falsy_def)
  have m: "JwtVerify ''tok-acme'' ''email-key''
      \<in> set (events (snd (GET verify_env verify_up acme_request no_users)))"
    by (simp add: run_new_user)
  have p: "verification_passed verify_env verify_up acme_request"
    by (simp add: verification_passed_def resolved_tenant_def concrete_defs interp_def
        EMAIL_SECRET_def falsy_def)
  have r: "fst (GET verify_env verify_up acme_request no_users)
       = Returns (Redirect ''https://app.liveplus.pro/acme/financeiro'')"
    by (simp add: run_new_user)
  from secrets_fall_back_and_domain_is_fixed [OF v, of no_users] m p r
  show ?thesis
    by (simp add: verify_env_def)
qed

text \<open>
  C9. For a request with no tenant parameter (or an empty one) whose token is accepted:
  when the token carries a tenant, the handler adopts it and connects to that tenant's
  database, neither tenant check rejects the request, and the answer is not the
  invalid-tenant redirect; when the token carries none, the request is rejected by the
  missing-tenant check. The mismatch check never rejects such a request.
\<close>

theorem omitted_tenant_adopts_token_tenant:
  assumes "falsy (tenant_param request)"
    and "\<not> falsy (token_param request)"
    and "jwt_verify w (interp (token_param request)) (EMAIL_SECRET e) = Inr decoded"
  shows "(\<not> falsy (decoded_tenant decoded) \<longrightarrow>
            ConnectDB (interp (decoded_tenant decoded)) \<in> set (events (snd (GET e w request db)))
          \<and> filter tenant_rejection (events (snd (GET e w request db))) = []
          \<and> fst (GET e w request db) \<noteq>
              Returns (Redirect (interp (NEXT_PUBLIC_APP_URL e) @ ''/?error=invalid-tenant'')))
     \<and> (falsy (decoded_tenant decoded) \<longrightarrow>
            ConsoleError ''No tenant provided'' \<in> set (events (snd (GET e w request db))))
     \<and> ConsoleError ''Tenant mismatch:'' \<notin> set (events (snd (GET e w request db)))"
proof (cases "falsy (decoded_tenant decoded)")
  case True
  with assms show ?thesis
    unfolding GET_def GET_try_def Let_def
    by (auto simp: redirect_def)
next
  case False
  with assms have passed: "verification_passed e w request"
    by (simp add: verification_passed_def resolved_tenant_def)
  let ?t = "interp (decoded_tenant decoded)"
  from GET_accepted [OF passed assms(3), of db] assms(1) obtain r s s2
    where rs: "GET_try e w request (initial db) = (r, s)"
      and v: "GET_verified e w decoded ?t s2 = (r, s)"
      and ev2: "events s2 = [JwtVerify (interp (token_param request)) (EMAIL_SECRET e),
                             ConsoleLog ''Retrieved tenant from token:'']"
    by auto
  from GET_verified_grows [OF v] obtain evs
    where es: "events s = events s2 @ ConnectDB ?t # evs" and st: "list_all (stage_event e) evs"
    by (auto simp: grows_by_def)
  have fin: "events (snd (GET e w request db)) =
      events s @ (case r of Inr x \<Rightarrow> [] | Inl err \<Rightarrow> [ConsoleError ''Verification error:''])"
    by (rule GET_state(2) [OF rs])
  have c: "ConnectDB ?t \<in> set (events (snd (GET e w request db)))"
    unfolding fin es by simp
  have "\<not> tenant_rejection ev" if "ev \<in> set evs" for ev
    using st that by (auto simp: list_all_iff dest: stage_event_not_check)
  then have n: "filter tenant_rejection (events (snd (GET e w request db))) = []"
    unfolding fin es ev2 by (auto simp: filter_empty_conv split: sum.splits)
  have o: "fst (GET e w request db) \<noteq>
      Returns (Redirect (interp (NEXT_PUBLIC_APP_URL e) @ ''/?error=invalid-tenant''))"
  proof
    assume "fst (GET e w request db) =
      Returns (Redirect (interp (NEXT_PUBLIC_APP_URL e) @ ''/?error=invalid-tenant''))"
    from GET_accepted_outcome [OF passed assms(3) this] show False
      by (auto dest: arg_cong [where f = last])
  qed
  have "ConsoleError ''Tenant mismatch:'' \<notin> set (events (snd (GET e w request db)))"
  proof
    assume "ConsoleError ''Tenant mismatch:'' \<in> set (events (snd (GET e w request db)))"
    then have "ConsoleError ''Tenant mismatch:''
        \<in> set (filter tenant_rejection (events (snd (GET e w request db))))"
      by simp
    with n show False by simp
  qed
  with False c n o show ?thesis by simp
qed

theorem omitted_tenant_adopts_token_tenant_witness:
  "ConnectDB ''acme'' \<in> set (events (snd (GET verify_env verify_up acme_request no_users)))
   \<and> filter tenant_rejection (events (snd (GET verify_env verify_up acme_request no_users))) = []
   \<and> fst (GET verify_env verify_up acme_request no_users) \<noteq>
       Returns (Redirect ''https://lp.example/?error=invalid-tenant'')"
proof -
  let ?d = "\<lparr>decoded_email = Some ''a@x.com'', decoded_tenant = Some ''acme''\<rparr>"
  have v: "jwt_verify verify_up (interp (token_param acme_request)) (EMAIL_SECRET verify_env)
      = Inr ?d"
    by (simp add: concrete_defs interp_def EMAIL_SECRET_def falsy_def)
  have a: "falsy (tenant_param acme_request)" "\<not> falsy (token_param acme_request)"
    by (simp_all add: acme_request_def falsy_def)
  have t: "\<not> falsy (decoded_tenant ?d)"
    by (simp add: falsy_def)
  from omitted_tenant_adopts_token_tenant [OF a v, of no_users] t
  show ?thesis
    by (simp add: interp_def verify_env_def)
qed

end
